theory Spec2Isabelle
  imports Main
begin

section \<open>Python values used by \<open>pytube/captions.py\<close>\<close>

text \<open>
  A Python \<open>str\<close> is modelled as a \<open>string\<close>; one \<open>char\<close> stands for one code point, so
  the model covers the strings whose code points are below 256.  Exceptions are values of
  the datatype \<open>exn\<close>; a function that may raise returns \<open>exn + 'a\<close>, with \<open>Inl\<close> the
  exception raised.
\<close>

datatype exn =
    KeyError string
  | AttributeError string
  | AssertionError string
  | ValueError
  | OverflowError
  | OSError
  | ParseError

subsection \<open>String methods\<close>

text \<open>\<open>str.strip(chars)\<close>: drop the leading and the trailing characters that occur in \<open>chars\<close>.\<close>

definition strip_chars :: "string \<Rightarrow> string \<Rightarrow> string" where
  "strip_chars chars s =
     rev (dropWhile (\<lambda>c. c \<in> set chars) (rev (dropWhile (\<lambda>c. c \<in> set chars) s)))"

section \<open>Caption: construction and printable representation\<close>

text \<open>
  The caption track descriptor is a dictionary.  Its keys are the fields of a record, an
  absent key being \<open>None\<close>: \<open>baseUrl\<close>, \<open>name\<close> and \<open>vssId\<close> at top level, \<open>simpleText\<close> and
  \<open>runs\<close> inside \<open>name\<close>.  An element of \<open>runs\<close> is a dictionary from keys to strings.
\<close>

type_synonym run = "string \<rightharpoonup> string"

record name_dict =
  simpleText :: "string option"
  runs :: "run list option"

record caption_track =
  baseUrl :: "string option"
  name :: "name_dict option"
  vssId :: "string option"

text \<open>
  The attributes of a \<open>Caption\<close> object.  \<open>url\<close> holds the result of \<open>dict.get\<close>, which is
  Python's \<open>None\<close> for an absent key.  \<open>name\<close> is \<open>None\<close> as long as the attribute has not been
  assigned.
\<close>

record caption =
  url :: "string option"
  name :: "string option"
  code :: string

text \<open>
  Lines 29 to 31: \<open>for el in name_dict['runs']: if 'text' in el: self.name = el['text']\<close>.
  The second argument is the attribute \<open>self.name\<close> before the loop.
\<close>

fun runs_loop :: "run list \<Rightarrow> string option \<Rightarrow> string option" where
  "runs_loop [] self_name = self_name"
| "runs_loop (el # els) self_name =
     (case el ''text'' of
        Some t \<Rightarrow> runs_loop els (Some t)
      | None \<Rightarrow> runs_loop els self_name)"

text \<open>\<open>Caption.__init__\<close>, lines 21 to 38.\<close>

definition Caption_init :: "caption_track \<Rightarrow> exn + caption" where
  "Caption_init track =
     (let self_url = baseUrl track in
      case caption_track.name track of
        None \<Rightarrow> Inl (KeyError ''name'')
      | Some nd \<Rightarrow>
          (case (case simpleText nd of
                   Some t \<Rightarrow> Inr (Some t)
                 | None \<Rightarrow>
                     (case runs nd of
                        None \<Rightarrow> Inl (KeyError ''runs'')
                      | Some els \<Rightarrow> Inr (runs_loop els None))) of
             Inl e \<Rightarrow> Inl e
           | Inr self_name \<Rightarrow>
               (case vssId track of
                  None \<Rightarrow> Inl (KeyError ''vssId'')
                | Some v \<Rightarrow>
                    Inr \<lparr>url = self_url, name = self_name, code = strip_chars ''.'' v\<rparr>)))"

text \<open>\<open>Caption.__repr__\<close>, line 238: reading an attribute that was never assigned raises.\<close>

definition Caption_repr :: "caption \<Rightarrow> exn + string" where
  "Caption_repr s =
     (case caption.name s of
        None \<Rightarrow> Inl (AttributeError ''name'')
      | Some n \<Rightarrow> Inr (''<Caption lang=\"'' @ n @ ''\" code=\"'' @ code s @ ''\">''))"

subsection \<open>More string methods\<close>

text \<open>
  \<open>str.strip()\<close> without argument removes whitespace, the code points for which
  \<open>str.isspace\<close> holds; below 256 these are 9 to 13, 28 to 32, 133 and 160.
\<close>

definition isspace :: "char \<Rightarrow> bool" where
  "isspace c \<longleftrightarrow>
     c \<in> set [CHR 0x09, CHR 0x0A, CHR 0x0B, CHR 0x0C, CHR 0x0D, CHR 0x1C, CHR 0x1D,
              CHR 0x1E, CHR 0x1F, CHR 0x20, CHR 0x85, CHR 0xA0]"

definition strip :: "string \<Rightarrow> string" where
  "strip s = rev (dropWhile isspace (rev (dropWhile isspace s)))"

text \<open>\<open>sep.join(xs)\<close>.\<close>

fun join :: "string \<Rightarrow> string list \<Rightarrow> string" where
  "join sep [] = []"
| "join sep [x] = x"
| "join sep (x # y # ys) = x @ sep @ join sep (y # ys)"

text \<open>
  \<open>s.replace(old, new)\<close>: the occurrences of \<open>old\<close> are found from left to right and do not
  overlap.  An empty \<open>old\<close> matches before every character and at the end.
\<close>

function replace :: "string \<Rightarrow> string \<Rightarrow> string \<Rightarrow> string" where
  "replace old new [] = (if old = [] then new else [])"
| "replace old new (c # cs) =
     (if old = [] then new @ c # replace old new cs
      else if take (length old) (c # cs) = old
        then new @ replace old new (drop (length old) (c # cs))
      else c # replace old new cs)"
  by pat_completeness auto
termination
  by (relation "measure (\<lambda>(old, new, s). length s)") auto

text \<open>The decimal digits of a natural number, as \<open>str.format\<close> prints an \<open>int\<close>.\<close>

definition digit_char :: "nat \<Rightarrow> char" where
  "digit_char d = ''0123456789'' ! d"

fun str_nat :: "nat \<Rightarrow> string" where
  "str_nat n = (if n < 10 then [digit_char n] else str_nat (n div 10) @ [digit_char (n mod 10)])"

declare str_nat.simps [simp del]

text \<open>
  \<open>html.unescape(s)\<close> returns \<open>s\<close> itself when it holds no \<open>&\<close>; otherwise it substitutes
  the character references that its regular expression finds.  The substitution, with its
  table of named entities, is a parameter of the model.
\<close>

definition unescape :: "(string \<Rightarrow> string) \<Rightarrow> string \<Rightarrow> string" where
  "unescape charref_sub s = (if CHR ''&'' \<notin> set s then s else charref_sub s)"

subsection \<open>Floats\<close>

text \<open>
  A Python \<open>float\<close> is an IEEE 754 binary64 number.  \<open>Finite s m e\<close> is the number
  \<open>(-1)\<^sup>s \<cdot> m \<cdot> 2\<^sup>e\<close> for a mantissa \<open>m \<ge> 0\<close>, the sign \<open>s\<close> being \<open>True\<close> for a negative
  number; zero has a sign.
\<close>

datatype pyfloat = Finite bool int int | Infinity bool | NaN

text \<open>The quotient \<open>n / d\<close> rounded to the nearest integer, a tie going to the even one.\<close>

definition round_half_even :: "int \<Rightarrow> int \<Rightarrow> int" where
  "round_half_even n d =
     (let q = n div d; r = n mod d in
      if 2 * r < d then q
      else if d < 2 * r then q + 1
      else if even q then q else q + 1)"

function bit_length :: "int \<Rightarrow> int" where
  "bit_length n = (if n \<le> 0 then 0 else 1 + bit_length (n div 2))"
  by pat_completeness auto
termination
  by (relation "measure nat") auto

declare bit_length.simps [simp del]

text \<open>\<open>floor_log2 n d\<close> is the integer \<open>k\<close> with \<open>2\<^sup>k \<le> n / d < 2\<^sup>k\<^sup>+\<^sup>1\<close>, for positive \<open>n\<close> and \<open>d\<close>.\<close>

definition floor_log2 :: "int \<Rightarrow> int \<Rightarrow> int" where
  "floor_log2 n d =
     (let k = bit_length n - bit_length d in
      if (if 0 \<le> k then d * 2 ^ nat k \<le> n else d \<le> n * 2 ^ nat (- k)) then k else k - 1)"

text \<open>
  The binary64 number nearest to \<open>n / d\<close> (\<open>d\<close> positive), with sign \<open>s\<close>: 53 significant
  bits, the exponent of the last bit not below \<open>-1074\<close> (subnormal numbers), rounding to
  nearest with ties to even, and infinity from \<open>2\<^sup>1\<^sup>0\<^sup>2\<^sup>4\<close> on.
\<close>

definition float_of_ratio :: "bool \<Rightarrow> int \<Rightarrow> int \<Rightarrow> pyfloat" where
  "float_of_ratio s n d =
     (if n = 0 then Finite s 0 0
      else
        let e = max (floor_log2 n d - 52) (- 1074);
            m = (if 0 \<le> e then round_half_even n (d * 2 ^ nat e)
                 else round_half_even (n * 2 ^ nat (- e)) d)
        in if 971 < e \<or> (e = 971 \<and> 2 ^ 53 \<le> m) then Infinity s else Finite s m e)"

text \<open>
  \<open>float(x)\<close> for a string \<open>x\<close>.  Whitespace is stripped at both ends (for \<open>float\<close> the code
  points 9 to 13, 32, 133 and 160).  An underscore must stand between two digits and is
  dropped.  What remains is an optional sign followed by \<open>inf\<close>, \<open>infinity\<close> or \<open>nan\<close> in any
  case, or by a decimal number: digits with an optional point, at least one digit, and an
  optional exponent.  Anything else raises \<open>ValueError\<close>.
\<close>

definition float_isspace :: "char \<Rightarrow> bool" where
  "float_isspace c \<longleftrightarrow>
     c \<in> set [CHR 0x09, CHR 0x0A, CHR 0x0B, CHR 0x0C, CHR 0x0D, CHR 0x20, CHR 0x85, CHR 0xA0]"

definition isdigit :: "char \<Rightarrow> bool" where
  "isdigit c \<longleftrightarrow> c \<in> set ''0123456789''"

definition digit_value :: "char \<Rightarrow> int" where
  "digit_value c = of_char c - 48"

definition int_of_digits :: "string \<Rightarrow> int" where
  "int_of_digits ds = foldl (\<lambda>a c. 10 * a + digit_value c) 0 ds"

fun underscores_ok :: "char \<Rightarrow> string \<Rightarrow> bool" where
  "underscores_ok prev [] = (prev \<noteq> CHR ''_'')"
| "underscores_ok prev (c # cs) =
     (if c = CHR ''_'' then isdigit prev \<and> underscores_ok c cs
      else (prev = CHR ''_'' \<longrightarrow> isdigit c) \<and> underscores_ok c cs)"

definition lower :: "char \<Rightarrow> char" where
  "lower c = (if c \<in> set ''ABCDEFGHIJKLMNOPQRSTUVWXYZ'' then char_of (of_char c + (32::nat)) else c)"

text \<open>
  The decimal number \<open>body\<close> as a pair \<open>(D, E)\<close> standing for \<open>D \<cdot> 10\<^sup>E\<close>, or \<open>None\<close> when
  \<open>body\<close> is not one.
\<close>

definition parse_decimal :: "string \<Rightarrow> (int \<times> int) option" where
  "parse_decimal body =
     (let ip = takeWhile isdigit body;
          r1 = dropWhile isdigit body;
          fp = (case r1 of c # t \<Rightarrow> if c = CHR ''.'' then takeWhile isdigit t else [] | [] \<Rightarrow> []);
          r2 = (case r1 of c # t \<Rightarrow> if c = CHR ''.'' then dropWhile isdigit t else r1 | [] \<Rightarrow> [])
      in if ip = [] \<and> fp = [] then None
         else
           (case r2 of
              [] \<Rightarrow> Some (int_of_digits (ip @ fp), - int (length fp))
            | c # t \<Rightarrow>
                if c = CHR ''e'' \<or> c = CHR ''E'' then
                  (let neg = (case t of x # u \<Rightarrow> x = CHR ''-'' | [] \<Rightarrow> False);
                       ds = (case t of x # u \<Rightarrow> if x = CHR ''+'' \<or> x = CHR ''-'' then u else t
                             | [] \<Rightarrow> [])
                   in if ds \<noteq> [] \<and> list_all isdigit ds
                      then Some (int_of_digits (ip @ fp),
                                 (if neg then - int_of_digits ds else int_of_digits ds)
                                   - int (length fp))
                      else None)
                else None))"

definition py_float :: "string \<Rightarrow> exn + pyfloat" where
  "py_float x =
     (let s = rev (dropWhile float_isspace (rev (dropWhile float_isspace x))) in
      if s = [] \<or> \<not> underscores_ok (CHR 0x00) s then Inl ValueError
      else
        let u = filter (\<lambda>c. c \<noteq> CHR ''_'') s;
            neg = (case u of c # t \<Rightarrow> c = CHR ''-'' | [] \<Rightarrow> False);
            body = (case u of c # t \<Rightarrow> if c = CHR ''+'' \<or> c = CHR ''-'' then t else u | [] \<Rightarrow> [])
        in if map lower body = ''inf'' \<or> map lower body = ''infinity'' then Inr (Infinity neg)
           else if map lower body = ''nan'' then Inr NaN
           else
             (case parse_decimal body of
                None \<Rightarrow> Inl ValueError
              | Some (D, E) \<Rightarrow>
                  Inr (if 0 \<le> E then float_of_ratio neg (D * 10 ^ nat E) 1
                       else float_of_ratio neg D (10 ^ nat (- E)))))"

text \<open>
  \<open>x / k\<close> for a float \<open>x\<close> and a positive integer \<open>k\<close> below \<open>2\<^sup>5\<^sup>3\<close>, which converts to a
  float exactly: the exact quotient, rounded.
\<close>

fun truediv :: "pyfloat \<Rightarrow> int \<Rightarrow> pyfloat" where
  "truediv (Finite s m e) k =
     (if 0 \<le> e then float_of_ratio s (m * 2 ^ nat e) k else float_of_ratio s m (k * 2 ^ nat (- e)))"
| "truediv (Infinity s) k = Infinity s"
| "truediv NaN k = NaN"

text \<open>\<open>math.modf(x)\<close>: the fractional and the integer part, both with the sign of \<open>x\<close>.\<close>

fun modf :: "pyfloat \<Rightarrow> pyfloat \<times> pyfloat" where
  "modf (Finite s m e) =
     (if 0 \<le> e then (Finite s 0 0, Finite s m e)
      else (Finite s (m mod 2 ^ nat (- e)) e, Finite s (m div 2 ^ nat (- e)) 0))"
| "modf (Infinity s) = (Finite s 0 0, Infinity s)"
| "modf NaN = (NaN, NaN)"

text \<open>
  \<open>time.gmtime(secs)\<close> for a float: the seconds are rounded down to an integer \<open>t\<close>.  It raises
  \<open>ValueError\<close> for a NaN, \<open>OverflowError\<close> when \<open>t\<close> is no 64-bit \<open>time_t\<close>, and \<open>OSError\<close> when
  the C library (glibc on a 64-bit Linux is modelled) cannot hold the year, counted from
  1900, in an \<open>int\<close>.  Of the resulting \<open>struct_time\<close> the year, the hour, the minute and the
  second are modelled; \<open>tm_year\<close> is the full year, as in Python.
\<close>

record struct_time =
  tm_year :: int
  tm_hour :: nat
  tm_min :: nat
  tm_sec :: nat

text \<open>
  The year of the proleptic Gregorian calendar that holds the day \<open>days\<close>, counted from
  1 January 1970.  The days are counted from 1 March of year 0 in periods of 400 years
  (146097 days); \<open>yoe\<close> is the year of the period, a year beginning in March, and \<open>doy\<close> the
  day of that year, January beginning with its day 306.
\<close>

definition year_of_days :: "int \<Rightarrow> int" where
  "year_of_days days =
     (let z = days + 719468;
          era = z div 146097;
          doe = z mod 146097;
          yoe = (doe - doe div 1460 + doe div 36524 - doe div 146096) div 365;
          doy = doe - (365 * yoe + yoe div 4 - yoe div 100)
      in 400 * era + yoe + (if 306 \<le> doy then 1 else 0))"

definition float_floor :: "bool \<Rightarrow> int \<Rightarrow> int \<Rightarrow> int" where
  "float_floor s m e =
     (let v = (if s then - m else m) in
      if 0 \<le> e then v * 2 ^ nat e else v div 2 ^ nat (- e))"

fun gmtime :: "pyfloat \<Rightarrow> exn + struct_time" where
  "gmtime NaN = Inl ValueError"
| "gmtime (Infinity s) = Inl OverflowError"
| "gmtime (Finite s m e) =
     (let t = float_floor s m e in
      if t < - (2 ^ 63) \<or> 2 ^ 63 \<le> t then Inl OverflowError
      else if t < - 67768040609740800 \<or> 67768036191676799 < t then Inl OSError
      else Inr \<lparr>tm_year = year_of_days (t div 86400),
                tm_hour = nat (t mod 86400 div 3600),
                tm_min = nat (t mod 3600 div 60),
                tm_sec = nat (t mod 60)\<rparr>)"

definition two_digits :: "nat \<Rightarrow> string" where
  "two_digits n = [digit_char (n div 10), digit_char (n mod 10)]"

text \<open>
  \<open>time.strftime("%H:%M:%S,", tm)\<close>.  Before it formats, \<open>strftime\<close> converts the fields of
  \<open>tm\<close> to C \<open>int\<close>s and counts the year from 1900: it raises \<open>OverflowError\<close> for a year above
  \<open>2\<^sup>3\<^sup>1 - 1\<close> or below \<open>-2\<^sup>3\<^sup>1 + 1900\<close>, also when the format does not print the year.
\<close>

definition strftime_HMS :: "struct_time \<Rightarrow> exn + string" where
  "strftime_HMS tm =
     (if 2147483647 < tm_year tm \<or> tm_year tm < - 2147483648 + 1900 then Inl OverflowError
      else Inr (two_digits (tm_hour tm) @ '':'' @ two_digits (tm_min tm) @ '':'' @
                two_digits (tm_sec tm) @ '',''))"

text \<open>
  \<open>f"{x:.3f}"\<close>: the number rounded to three decimals (the exact binary value, ties to
  even), with a minus sign also for a negative zero.
\<close>

fun format_3f :: "pyfloat \<Rightarrow> string" where
  "format_3f (Finite s m e) =
     (let k = (if 0 \<le> e then m * 2 ^ nat e * 1000 else round_half_even (m * 1000) (2 ^ nat (- e)))
      in (if s then ''-'' else '''') @ str_nat (nat (k div 1000)) @ ''.'' @
         [digit_char (nat (k mod 1000 div 100)), digit_char (nat (k mod 100 div 10)),
          digit_char (nat (k mod 10))])"

| "format_3f (Infinity s) = (if s then ''-inf'' else ''inf'')"
| "format_3f NaN = ''nan''"

section \<open>Timestamp formatting\<close>

text \<open>\<open>Caption.float_to_srt_time_format\<close>, lines 80 to 83.\<close>

definition float_to_srt_time_format :: "pyfloat \<Rightarrow> exn + string" where
  "float_to_srt_time_format d =
     (let (fraction, whole) = modf d in
      case gmtime whole of
        Inl e \<Rightarrow> Inl e
      | Inr tm \<Rightarrow>
          (case strftime_HMS tm of
             Inl e \<Rightarrow> Inl e
           | Inr time_fmt \<Rightarrow>
               (let ms = replace ''0.'' '''' (format_3f fraction)
                in Inr (time_fmt @ ms))))"

text \<open>\<open>Caption.timestamp_to_srt_time_format\<close>, line 68.\<close>

definition timestamp_to_srt_time_format :: "pyfloat \<Rightarrow> exn + string" where
  "timestamp_to_srt_time_format timestamp = float_to_srt_time_format (truediv timestamp 1000)"

section \<open>XML caption tracks\<close>

text \<open>
  An element of the tree that \<open>ElementTree.fromstring\<close> returns: its tag, its attribute
  dictionary, its text (Python's \<open>None\<close> when there is none) and its children in document
  order.  The parser itself is not part of the repository; the conversion functions take
  it as the parameter \<open>fromstring\<close>, which returns the root element or raises.
\<close>

datatype element =
  Element (tag: string) (attrib: "string \<rightharpoonup> string") (text_of: "string option")
    (children: "element list")

text \<open>\<open>e.find(path)\<close> and \<open>e.findall(path)\<close> for a path that is a tag: the direct children with that tag.\<close>

definition find_elem :: "string \<Rightarrow> element \<Rightarrow> element option" where
  "find_elem path e = List.find (\<lambda>c. tag c = path) (children e)"

definition findall :: "string \<Rightarrow> element \<Rightarrow> element list" where
  "findall path e = filter (\<lambda>c. tag c = path) (children e)"

text \<open>
  Lines 112 and 159: \<open>text = reduce(lambda acc, s: acc + (s.text or ""), p.findall('s'), "")\<close>.
\<close>

definition paragraph_text :: "element \<Rightarrow> string" where
  "paragraph_text p =
     foldl (\<lambda>acc s. acc @ (case text_of s of None \<Rightarrow> [] | Some t \<Rightarrow> t)) [] (findall ''s'' p)"

text \<open>
  Lines 113 and 160: \<open>caption = unescape(text.replace("\n", " ").replace("  ", " "))\<close>, for the
  text \<open>text\<close> of a paragraph.
\<close>

definition normalize_text :: "(string \<Rightarrow> string) \<Rightarrow> string \<Rightarrow> string" where
  "normalize_text charref_sub text =
     unescape charref_sub (replace ''  '' '' '' (replace [CHR 0x0A] '' '' text))"

definition paragraph_caption :: "(string \<Rightarrow> string) \<Rightarrow> element \<Rightarrow> string" where
  "paragraph_caption charref_sub p = normalize_text charref_sub (paragraph_text p)"

text \<open>
  What a conversion function does when it returns: the string returned, and the exception
  whose traceback the \<open>except\<close> clause printed, if it caught one.
\<close>

record generated =
  returned :: string
  printed_exc :: "exn option"

subsection \<open>Plain text\<close>

text \<open>The loop of lines 111 to 115, from the list \<open>segments\<close> before it to the list after it.\<close>

fun transcript_loop :: "(string \<Rightarrow> string) \<Rightarrow> element list \<Rightarrow> string list \<Rightarrow> string list" where
  "transcript_loop charref_sub [] segments = segments"
| "transcript_loop charref_sub (p # ps) segments =
     (let caption = paragraph_caption charref_sub p in
      if caption \<noteq> [] then transcript_loop charref_sub ps (segments @ [caption])
      else transcript_loop charref_sub ps segments)"

text \<open>
  \<open>Caption.xml_caption_to_transcript\<close>, lines 103 to 119.  The call of the parser stands
  before the \<open>try\<close> statement, so what it raises is raised by the function.
\<close>

definition xml_caption_to_transcript ::
  "(string \<Rightarrow> exn + element) \<Rightarrow> (string \<Rightarrow> string) \<Rightarrow> string \<Rightarrow> exn + generated" where
  "xml_caption_to_transcript fromstring charref_sub xml_captions =
     (case fromstring xml_captions of
        Inl e \<Rightarrow> Inl e
      | Inr root \<Rightarrow>
          (case find_elem ''body'' root of
             None \<Rightarrow>
               Inr \<lparr>returned = strip (join '' '' []),
                    printed_exc = Some (AssertionError ''XML caption doesn't have a <body> tag'')\<rparr>
           | Some child \<Rightarrow>
               Inr \<lparr>returned =
                      strip (join '' '' (transcript_loop charref_sub (findall ''p'' child) [])),
                    printed_exc = None\<rparr>))"

subsection \<open>SubRip\<close>

text \<open>
  \<open>append_segment\<close>, lines 139 to 145: the keyword arguments of \<open>format\<close> are evaluated in
  the order written, the start before the end; the list is extended only when both
  timestamps were formatted.
\<close>

definition append_segment ::
  "string list \<Rightarrow> string \<Rightarrow> pyfloat \<Rightarrow> pyfloat \<Rightarrow> nat \<Rightarrow> exn + string list" where
  "append_segment segments caption start end sequence_number =
     (case timestamp_to_srt_time_format start of
        Inl e \<Rightarrow> Inl e
      | Inr start_str \<Rightarrow>
          (case timestamp_to_srt_time_format end of
             Inl e \<Rightarrow> Inl e
           | Inr end_str \<Rightarrow>
               Inr (segments @
                    [str_nat sequence_number @ [CHR 0x0A] @ start_str @ '' --> '' @ end_str @
                     [CHR 0x0A] @ caption @ [CHR 0x0A]])))"

text \<open>\<open>float(e.attrib[key])\<close>: \<open>KeyError\<close> for an absent attribute, \<open>ValueError\<close> for a non-numeric one.\<close>

definition float_attrib :: "element \<Rightarrow> string \<Rightarrow> exn + pyfloat" where
  "float_attrib e key = (case attrib e key of None \<Rightarrow> Inl (KeyError key) | Some v \<Rightarrow> py_float v)"

text \<open>
  One iteration of the loop of lines 156 to 165, for the index \<open>i < len(ps)\<close>: the list
  \<open>segments\<close> after it, or the exception that ends the loop.
\<close>

definition srt_iteration ::
  "(string \<Rightarrow> string) \<Rightarrow> element list \<Rightarrow> nat \<Rightarrow> string list \<Rightarrow> exn + string list" where
  "srt_iteration charref_sub ps i segments =
     (let p = ps ! i in
      case float_attrib p ''t'' of
        Inl e \<Rightarrow> Inl e
      | Inr start \<Rightarrow>
          (let caption = paragraph_caption charref_sub p in
           case (if i + 1 < length ps then float_attrib (ps ! (i + 1)) ''t''
                 else float_attrib p ''d'') of
             Inl e \<Rightarrow> Inl e
           | Inr end \<Rightarrow> append_segment segments caption start end (i + 1)))"

text \<open>
  The loop from index \<open>i\<close> on, inside the \<open>try\<close> statement: it yields the list \<open>segments\<close> as
  it is when the loop ends or an exception leaves it, and that exception.
\<close>

function srt_loop ::
  "(string \<Rightarrow> string) \<Rightarrow> element list \<Rightarrow> nat \<Rightarrow> string list \<Rightarrow> string list \<times> exn option" where
  "srt_loop charref_sub ps i segments =
     (if i < length ps then
        (case srt_iteration charref_sub ps i segments of
           Inl e \<Rightarrow> (segments, Some e)
         | Inr segments' \<Rightarrow> srt_loop charref_sub ps (i + 1) segments')
      else (segments, None))"
  by pat_completeness auto
termination
  by (relation "measure (\<lambda>(charref_sub, ps, i, segments). length ps - i)") auto

declare srt_loop.simps [simp del]

text \<open>\<open>Caption.xml_caption_to_srt\<close>, lines 147 to 169.\<close>

definition xml_caption_to_srt ::
  "(string \<Rightarrow> exn + element) \<Rightarrow> (string \<Rightarrow> string) \<Rightarrow> string \<Rightarrow> exn + generated" where
  "xml_caption_to_srt fromstring charref_sub xml_captions =
     (case fromstring xml_captions of
        Inl e \<Rightarrow> Inl e
      | Inr root \<Rightarrow>
          (case find_elem ''body'' root of
             None \<Rightarrow>
               Inr \<lparr>returned = strip (join [CHR 0x0A] []),
                    printed_exc = Some (AssertionError ''XML caption doesn't have a <body> tag'')\<rparr>
           | Some child \<Rightarrow>
               (let (segments, exc) = srt_loop charref_sub (findall ''p'' child) 0 []
                in Inr \<lparr>returned = strip (join [CHR 0x0A] segments), printed_exc = exc\<rparr>)))"

text \<open>
  The cue block that the iteration for index \<open>i\<close> appends to \<open>segments\<close>, or the exception
  that the iteration raises; the properties below are stated with it.
\<close>

definition cue_block :: "(string \<Rightarrow> string) \<Rightarrow> element list \<Rightarrow> nat \<Rightarrow> exn + string" where
  "cue_block charref_sub ps i =
     (case float_attrib (ps ! i) ''t'' of
        Inl e \<Rightarrow> Inl e
      | Inr start \<Rightarrow>
          (case (if i + 1 < length ps then float_attrib (ps ! (i + 1)) ''t''
                 else float_attrib (ps ! i) ''d'') of
             Inl e \<Rightarrow> Inl e
           | Inr end \<Rightarrow>
               (case timestamp_to_srt_time_format start of
                  Inl e \<Rightarrow> Inl e
                | Inr start_str \<Rightarrow>
                    (case timestamp_to_srt_time_format end of
                       Inl e \<Rightarrow> Inl e
                     | Inr end_str \<Rightarrow>
                         Inr (str_nat (i + 1) @ [CHR 0x0A] @ start_str @ '' --> '' @ end_str @
                              [CHR 0x0A] @ paragraph_caption charref_sub (ps ! i) @ [CHR 0x0A])))))"

text \<open>
  The timestamps in milliseconds that the formatter accepts; the properties below are stated
  with it.  \<open>x / 1000\<close> is finite, and its integer part, a number of seconds counted from
  1970, is a time of the years \<open>-2147481748\<close> to \<open>2147483647\<close>: it lies between
  \<open>-67768040609740800\<close>, the first second that \<open>gmtime\<close> accepts, and \<open>67767976233532799\<close>,
  the last second of the last year that \<open>strftime\<close> accepts.
\<close>

definition accepted_timestamp :: "pyfloat \<Rightarrow> bool" where
  "accepted_timestamp x \<longleftrightarrow>
     (case snd (modf (truediv x 1000)) of
        Finite s m e \<Rightarrow>
          - 67768040609740800 \<le> float_floor s m e \<and> float_floor s m e \<le> 67767976233532799
      | Infinity s \<Rightarrow> False
      | NaN \<Rightarrow> False)"


section \<open>Sample documents\<close>

text \<open>
  The document of the repository's test \<open>test_generate_srt_captions\<close>, its two captions
  replaced by ASCII text, and the tree that \<open>ElementTree.fromstring\<close> builds from it.
\<close>

definition track_xml :: string where
  "track_xml =
     ''<?xml version=\"1.0\" encoding=\"utf-8\" ?><timedtext format=\"3\"><body><w t=\"0\" />'' @
     ''<p t=\"320\" d=\"1.7\"><s ac=\"255\">[Herb, Software Engineer]\<newline>Captions here.</s></p>'' @
     ''<p t=\"1750\" d=\"2410\" w=\"1\" a=\"1\"> </p>'' @
     ''<p t=\"1760\" d=\"5119\" w=\"1\"><s ac=\"255\">Click  the icon.</s></p>'' @
     ''</body></timedtext>''"

definition track_body :: element where
  "track_body =
     Element ''body'' Map.empty None
       [Element ''w'' [''t'' \<mapsto> ''0''] None [],
        Element ''p'' [''t'' \<mapsto> ''320'', ''d'' \<mapsto> ''1.7''] None
          [Element ''s'' [''ac'' \<mapsto> ''255'']
             (Some ''[Herb, Software Engineer]\<newline>Captions here.'') []],
        Element ''p'' [''t'' \<mapsto> ''1750'', ''d'' \<mapsto> ''2410'', ''w'' \<mapsto> ''1'', ''a'' \<mapsto> ''1'']
          (Some '' '') [],
        Element ''p'' [''t'' \<mapsto> ''1760'', ''d'' \<mapsto> ''5119'', ''w'' \<mapsto> ''1''] None
          [Element ''s'' [''ac'' \<mapsto> ''255''] (Some ''Click  the icon.'') []]]"

definition track_tree :: element where
  "track_tree = Element ''timedtext'' [''format'' \<mapsto> ''3''] None [track_body]"

text \<open>A track whose last paragraph has no \<open>d\<close> attribute.\<close>

definition no_duration_xml :: string where
  "no_duration_xml =
     ''<timedtext><body><p t=\"0\" d=\"1000\"><s>A</s></p><p t=\"1000\"><s>B</s></p></body></timedtext>''"

definition no_duration_body :: element where
  "no_duration_body =
     Element ''body'' Map.empty None
       [Element ''p'' [''t'' \<mapsto> ''0'', ''d'' \<mapsto> ''1000''] None
          [Element ''s'' Map.empty (Some ''A'') []],
        Element ''p'' [''t'' \<mapsto> ''1000''] None
          [Element ''s'' Map.empty (Some ''B'') []]]"

definition no_duration_tree :: element where
  "no_duration_tree = Element ''timedtext'' Map.empty None [no_duration_body]"

text \<open>A well-formed document without a \<open>body\<close> element.\<close>

definition no_body_xml :: string where
  "no_body_xml = ''<timedtext format=\"3\"><head /></timedtext>''"

definition no_body_tree :: element where
  "no_body_tree = Element ''timedtext'' [''format'' \<mapsto> ''3''] None [Element ''head'' Map.empty None []]"

text \<open>
  A track with leading and trailing whitespace: the text of its first paragraph begins with a
  space, the text of its second paragraph is one space, its third paragraph has an empty
  \<open>s\<close> child, and the text of its last paragraph ends with a newline.
\<close>

definition spaced_xml :: string where
  "spaced_xml =
     ''<timedtext><body><p t=\"320\" d=\"1.7\"><s> A</s></p>'' @
     ''<p t=\"1750\" d=\"2410\" w=\"1\"><s> </s></p><p t=\"1755\" d=\"5\"><s></s></p>'' @
     ''<p t=\"1760\" d=\"5119\"><s>B\<newline></s></p></body></timedtext>''"

definition spaced_body :: element where
  "spaced_body =
     Element ''body'' Map.empty None
       [Element ''p'' [''t'' \<mapsto> ''320'', ''d'' \<mapsto> ''1.7''] None
          [Element ''s'' Map.empty (Some '' A'') []],
        Element ''p'' [''t'' \<mapsto> ''1750'', ''d'' \<mapsto> ''2410'', ''w'' \<mapsto> ''1''] None
          [Element ''s'' Map.empty (Some '' '') []],
        Element ''p'' [''t'' \<mapsto> ''1755'', ''d'' \<mapsto> ''5''] None
          [Element ''s'' Map.empty None []],
        Element ''p'' [''t'' \<mapsto> ''1760'', ''d'' \<mapsto> ''5119''] None
          [Element ''s'' Map.empty (Some ''B\<newline>'') []]]"

definition spaced_tree :: element where
  "spaced_tree = Element ''timedtext'' Map.empty None [spaced_body]"

text \<open>A track whose second paragraph has the \<open>t\<close> attribute \<open>nan\<close>, which \<open>float\<close> reads as a NaN.\<close>

definition nan_xml :: string where
  "nan_xml =
     ''<timedtext><body><p t=\"0\" d=\"1000\"><s>A</s></p><p t=\"nan\" d=\"1000\"><s>B</s></p></body></timedtext>''"

definition nan_body :: element where
  "nan_body =
     Element ''body'' Map.empty None
       [Element ''p'' [''t'' \<mapsto> ''0'', ''d'' \<mapsto> ''1000''] None
          [Element ''s'' Map.empty (Some ''A'') []],
        Element ''p'' [''t'' \<mapsto> ''nan'', ''d'' \<mapsto> ''1000''] None
          [Element ''s'' Map.empty (Some ''B'') []]]"

definition nan_tree :: element where
  "nan_tree = Element ''timedtext'' Map.empty None [nan_body]"

text \<open>
  A track whose second paragraph starts \<open>67768000000000000000\<close> milliseconds after 1970, in
  the year 2147484401.
\<close>

definition far_xml :: string where
  "far_xml =
     ''<timedtext><body><p t=\"0\" d=\"1000\"><s>A</s></p>'' @
     ''<p t=\"67768000000000000000\" d=\"1000\"><s>B</s></p></body></timedtext>''"

definition far_body :: element where
  "far_body =
     Element ''body'' Map.empty None
       [Element ''p'' [''t'' \<mapsto> ''0'', ''d'' \<mapsto> ''1000''] None
          [Element ''s'' Map.empty (Some ''A'') []],
        Element ''p'' [''t'' \<mapsto> ''67768000000000000000'', ''d'' \<mapsto> ''1000''] None
          [Element ''s'' Map.empty (Some ''B'') []]]"

definition far_tree :: element where
  "far_tree = Element ''timedtext'' Map.empty None [far_body]"

text \<open>
  The parser on the sample documents.  The table holds the well-formed documents used
  below; the other inputs used below, the empty string and \<open><timedtext><body>\<close>, are not
  well-formed XML, for which \<open>ElementTree.fromstring\<close> raises \<open>ParseError\<close>.
\<close>

definition sample_fromstring :: "string \<Rightarrow> exn + element" where
  "sample_fromstring s =
     (if s = track_xml then Inr track_tree
      else if s = no_duration_xml then Inr no_duration_tree
      else if s = no_body_xml then Inr no_body_tree
      else if s = spaced_xml then Inr spaced_tree
      else if s = nan_xml then Inr nan_tree
      else if s = far_xml then Inr far_tree
      else Inl ParseError)"

text \<open>
  The sample documents hold no \<open>&\<close>, so \<open>html.unescape\<close> never reaches its substitution of
  character references there.
\<close>

definition no_charref :: "string \<Rightarrow> string" where
  "no_charref s = s"

section \<open>Properties of construction\<close>

lemma runs_loop_none:
  "\<forall>el\<in>set els. el ''text'' = None \<Longrightarrow> runs_loop els nm = nm"
  by (induction els arbitrary: nm) auto

lemma rev_dropWhile_takeWhile:
  "xs = rev (dropWhile P (rev xs)) @ rev (takeWhile P (rev xs))"
  by (metis rev_append rev_rev_ident takeWhile_dropWhile_id)

lemma strip_chars_decomp:
  "\<exists>pre post. s = pre @ strip_chars chars s @ post \<and> set pre \<subseteq> set chars \<and> set post \<subseteq> set chars"
proof -
  let ?P = "\<lambda>c. c \<in> set chars"
  let ?d = "dropWhile ?P s"
  have a: "s = takeWhile ?P s @ ?d" by simp
  have b: "?d = strip_chars chars s @ rev (takeWhile ?P (rev ?d))"
    unfolding strip_chars_def by (rule rev_dropWhile_takeWhile)
  have c: "set (takeWhile ?P s) \<subseteq> set chars"
    using set_takeWhileD by fastforce
  have d: "set (rev (takeWhile ?P (rev ?d))) \<subseteq> set chars"
    using set_takeWhileD by fastforce
  from a b have "s = takeWhile ?P s @ strip_chars chars s @ rev (takeWhile ?P (rev ?d))"
    by simp
  with c d show ?thesis by blast
qed

lemma strip_chars_last:
  assumes "strip_chars chars s \<noteq> []"
  shows "last (strip_chars chars s) \<notin> set chars"
proof -
  let ?P = "\<lambda>c. c \<in> set chars"
  let ?r = "dropWhile ?P (rev (dropWhile ?P s))"
  from assms have ne: "?r \<noteq> []" by (simp add: strip_chars_def)
  then have "\<not> ?P (hd ?r)" by (rule hd_dropWhile)
  moreover have "last (rev ?r) = hd ?r" using ne by (simp add: last_rev)
  ultimately show ?thesis by (simp add: strip_chars_def)
qed

lemma strip_chars_hd:
  assumes "strip_chars chars s \<noteq> []"
  shows "hd (strip_chars chars s) \<notin> set chars"
proof -
  let ?P = "\<lambda>c. c \<in> set chars"
  let ?d = "dropWhile ?P s"
  have b: "?d = strip_chars chars s @ rev (takeWhile ?P (rev ?d))"
    unfolding strip_chars_def by (rule rev_dropWhile_takeWhile)
  with assms have "hd ?d = hd (strip_chars chars s)"
    by (metis hd_append2)
  moreover from b assms have "?d \<noteq> []" by (metis Nil_is_append_conv)
  then have "\<not> ?P (hd ?d)" by (rule hd_dropWhile)
  ultimately show ?thesis by simp
qed

lemma strip_chars_empty_iff:
  "strip_chars chars s = [] \<longleftrightarrow> set s \<subseteq> set chars"
proof
  assume e: "strip_chars chars s = []"
  obtain pre post where "s = pre @ strip_chars chars s @ post" "set pre \<subseteq> set chars" "set post \<subseteq> set chars"
    using strip_chars_decomp by blast
  with e show "set s \<subseteq> set chars" by (metis append_Nil le_sup_iff set_append)
next
  assume "set s \<subseteq> set chars"
  then have "dropWhile (\<lambda>c. c \<in> set chars) s = []" by (metis dropWhile_eq_Nil_conv subsetD)
  then show "strip_chars chars s = []" unfolding strip_chars_def by (simp only: rev.simps dropWhile.simps)
qed

lemma strip_chars_nonempty_iff:
  "strip_chars chars s \<noteq> [] \<longleftrightarrow> (\<exists>ch\<in>set s. ch \<notin> set chars)"
  unfolding strip_chars_empty_iff by blast

lemma runs_loop_last:
  "runs_loop els nm =
     (case List.map_filter (\<lambda>el. el ''text'') els of [] \<Rightarrow> nm | t # ts \<Rightarrow> Some (last (t # ts)))"
proof (induction els arbitrary: nm)
  case Nil
  show ?case by (simp add: List.map_filter_simps)
next
  case (Cons el els)
  show ?case
    by (cases "el ''text''") (auto simp: Cons.IH List.map_filter_simps split: list.splits)
qed

lemma map_filter_nonempty:
  "\<exists>x\<in>set xs. f x \<noteq> None \<Longrightarrow> List.map_filter f xs \<noteq> []"
  by (auto simp: List.map_filter_def filter_empty_conv)

text \<open>
  Claim C7, as amended.  For every successfully constructed Caption the descriptor has a
  \<open>vssId\<close> and the stored code is that string with its leading and trailing \<open>.\<close> characters
  stripped: the \<open>vssId\<close> is the code between two runs of dots, and a non-empty code neither
  starts nor ends with a dot.  The code is non-empty exactly when the \<open>vssId\<close> holds a character
  other than \<open>.\<close>; construction does not check it.
\<close>
theorem caption_code_stripped:
  assumes "Caption_init track = Inr c"
  shows "\<exists>v. vssId track = Some v \<and> code c = strip_chars ''.'' v \<and>
           (\<exists>pre post. v = pre @ code c @ post \<and>
              set pre \<subseteq> {CHR ''.''} \<and> set post \<subseteq> {CHR ''.''}) \<and>
           (code c \<noteq> [] \<longrightarrow> hd (code c) \<noteq> CHR ''.'' \<and> last (code c) \<noteq> CHR ''.'') \<and>
           (code c \<noteq> [] \<longleftrightarrow> (\<exists>ch\<in>set v. ch \<noteq> CHR ''.''))"
proof -
  from assms have "\<exists>v. vssId track = Some v \<and> code c = strip_chars ''.'' v"
    by (auto simp: Caption_init_def split: option.splits sum.splits)
  then obtain v where v: "vssId track = Some v" and c: "code c = strip_chars ''.'' v"
    by (elim exE conjE)
  have "\<exists>pre post. v = pre @ code c @ post \<and> set pre \<subseteq> {CHR ''.''} \<and> set post \<subseteq> {CHR ''.''}"
    using strip_chars_decomp [of v "''.''"] c by simp
  moreover have "code c \<noteq> [] \<longrightarrow> hd (code c) \<noteq> CHR ''.'' \<and> last (code c) \<noteq> CHR ''.''"
    using strip_chars_hd [of "''.''" v] strip_chars_last [of "''.''" v] c by simp
  moreover have "code c \<noteq> [] \<longleftrightarrow> (\<exists>ch\<in>set v. ch \<noteq> CHR ''.'')"
  proof -
    have "code c \<noteq> [] \<longleftrightarrow> (\<exists>ch\<in>set v. ch \<notin> set ''.'')"
      unfolding c by (rule strip_chars_nonempty_iff)
    also have "\<dots> \<longleftrightarrow> (\<exists>ch\<in>set v. ch \<noteq> CHR ''.'')"
      by simp
    finally show ?thesis .
  qed
  ultimately have "vssId track = Some v \<and> code c = strip_chars ''.'' v \<and>
           (\<exists>pre post. v = pre @ code c @ post \<and>
              set pre \<subseteq> {CHR ''.''} \<and> set post \<subseteq> {CHR ''.''}) \<and>
           (code c \<noteq> [] \<longrightarrow> hd (code c) \<noteq> CHR ''.'' \<and> last (code c) \<noteq> CHR ''.'') \<and>
           (code c \<noteq> [] \<longleftrightarrow> (\<exists>ch\<in>set v. ch \<noteq> CHR ''.''))"
    using v c by (intro conjI)
  then show ?thesis by (rule exI [where x = v])
qed

text \<open>The descriptor of an auto-generated English track, with a trailing dot added.\<close>
theorem caption_code_stripped_witness:
  "Caption_init \<lparr>baseUrl = Some ''url1'',
                  name = Some \<lparr>simpleText = Some ''name1'', runs = None\<rparr>,
                  vssId = Some ''a.en.''\<rparr>
     = Inr \<lparr>url = Some ''url1'', name = Some ''name1'', code = ''a.en''\<rparr> \<and>
   (\<exists>v. Some ''a.en.'' = Some v \<and> ''a.en'' = strip_chars ''.'' v)"
proof -
  let ?t = "\<lparr>baseUrl = Some ''url1'',
              name = Some \<lparr>simpleText = Some ''name1'', runs = None\<rparr>,
              vssId = Some ''a.en.''\<rparr>"
  let ?c = "\<lparr>url = Some ''url1'', name = Some ''name1'', code = ''a.en''\<rparr>"
  have h: "Caption_init ?t = Inr ?c"
    by (simp add: Caption_init_def strip_chars_def)
  from caption_code_stripped [OF h]
  obtain v where "vssId ?t = Some v" and "code ?c = strip_chars ''.'' v"
    by (elim exE conjE)
  then have "\<exists>v. Some ''a.en.'' = Some v \<and> ''a.en'' = strip_chars ''.'' v"
    by (simp del: ex_simps)
  with h show ?thesis by (rule conjI)
qed

text \<open>
  Claim C7 as stated fails: a descriptor whose \<open>vssId\<close> is a single dot is constructed without
  error, and the stored code is the empty string.
\<close>
theorem caption_code_empty_counterexample:
  "Caption_init \<lparr>baseUrl = Some ''url1'',
                  name = Some \<lparr>simpleText = Some ''name1'', runs = None\<rparr>,
                  vssId = Some ''.''\<rparr>
     = Inr \<lparr>url = Some ''url1'', name = Some ''name1'', code = []\<rparr>"
  by (simp add: Caption_init_def strip_chars_def)

text \<open>
  Claim C8.  When the name mapping has no \<open>simpleText\<close> and some element of \<open>runs\<close> has a
  \<open>text\<close> field, the display name of the constructed Caption is the text of the last such
  element; the texts of the earlier runs are overwritten, not concatenated.
\<close>
theorem caption_name_last_run:
  assumes "caption_track.name track = Some nd"
    and "simpleText nd = None"
    and "runs nd = Some els"
    and "\<exists>el\<in>set els. el ''text'' \<noteq> None"
    and "Caption_init track = Inr c"
  shows "caption.name c = Some (last (List.map_filter (\<lambda>el. el ''text'') els))"
proof -
  from assms(4) have "List.map_filter (\<lambda>el. el ''text'') els \<noteq> []"
    by (rule map_filter_nonempty)
  then obtain t ts where ts: "List.map_filter (\<lambda>el. el ''text'') els = t # ts"
    by (cases "List.map_filter (\<lambda>el. el ''text'') els") auto
  from assms(1,2,3,5) have "caption.name c = runs_loop els None"
    by (auto simp: Caption_init_def split: option.splits)
  also have "\<dots> = Some (last (t # ts))"
    by (simp only: runs_loop_last ts list.case)
  finally show ?thesis by (simp only: ts)
qed

text \<open>Three runs, the second without a \<open>text\<close> field: only the third text is kept.\<close>
theorem caption_name_last_run_witness:
  "caption.name \<lparr>url = None, name = Some ''(auto)'', code = ''a.en''\<rparr>
     = Some (last (List.map_filter (\<lambda>el. el ''text'')
                [[''text'' \<mapsto> ''English ''], Map.empty, [''text'' \<mapsto> ''(auto)'']])) \<and>
   last (List.map_filter (\<lambda>el. el ''text'')
      [[''text'' \<mapsto> ''English ''], Map.empty, [''text'' \<mapsto> ''(auto)'']]) = ''(auto)''"
proof -
  let ?els = "[[''text'' \<mapsto> ''English ''], Map.empty, [''text'' \<mapsto> ''(auto)'']] :: run list"
  let ?nd = "\<lparr>simpleText = None, runs = Some ?els\<rparr>"
  let ?t = "\<lparr>baseUrl = None, name = Some ?nd, vssId = Some ''a.en''\<rparr>"
  let ?c = "\<lparr>url = None, name = Some ''(auto)'', code = ''a.en''\<rparr>"
  have h1: "caption_track.name ?t = Some ?nd" by simp
  have h2: "simpleText ?nd = None" by simp
  have h3: "runs ?nd = Some ?els" by simp
  have h4: "\<exists>el\<in>set ?els. el ''text'' \<noteq> None" by simp
  have h5: "Caption_init ?t = Inr ?c"
    by (simp add: Caption_init_def strip_chars_def)
  have l: "last (List.map_filter (\<lambda>el. el ''text'') ?els) = ''(auto)''"
    by (simp add: List.map_filter_simps)
  have "caption.name ?c = Some (last (List.map_filter (\<lambda>el. el ''text'') ?els))"
    by (rule caption_name_last_run [OF h1 h2 h3 h4 h5])
  then show ?thesis using l by (rule conjI)
qed

text \<open>
  Claim C10, as amended.  Let the name mapping have no \<open>simpleText\<close> and let no element of
  \<open>runs\<close> have a \<open>text\<close> field (the list may be empty).  Construction completes without
  raising exactly when the descriptor has a \<open>vssId\<close>: then the attribute \<open>name\<close> is never
  assigned, and the printable representation, which reads it, raises \<open>AttributeError\<close>.
  Without a \<open>vssId\<close> construction raises \<open>KeyError\<close>, at line 34.
\<close>
theorem caption_name_unassigned:
  assumes "caption_track.name track = Some nd"
    and "simpleText nd = None"
    and "runs nd = Some els"
    and "\<forall>el\<in>set els. el ''text'' = None"
  shows "(vssId track = None \<longrightarrow> Caption_init track = Inl (KeyError ''vssId'')) \<and>
         (\<forall>v. vssId track = Some v \<longrightarrow>
            Caption_init track =
              Inr \<lparr>url = baseUrl track, name = None, code = strip_chars ''.'' v\<rparr> \<and>
            Caption_repr \<lparr>url = baseUrl track, name = None, code = strip_chars ''.'' v\<rparr> =
              Inl (AttributeError ''name''))"
  using assms by (simp add: Caption_init_def Caption_repr_def runs_loop_none)

text \<open>Two runs, neither with a \<open>text\<close> field.\<close>
theorem caption_name_unassigned_witness:
  "Caption_init \<lparr>baseUrl = None,
                  name = Some \<lparr>simpleText = None, runs = Some [Map.empty, [''bold'' \<mapsto> ''x'']]\<rparr>,
                  vssId = Some ''.en''\<rparr>
     = Inr \<lparr>url = None, name = None, code = ''en''\<rparr> \<and>
   Caption_repr \<lparr>url = None, name = None, code = ''en''\<rparr> = Inl (AttributeError ''name'')"
proof -
  let ?els = "[Map.empty, [''bold'' \<mapsto> ''x'']] :: run list"
  let ?nd = "\<lparr>simpleText = None, runs = Some ?els\<rparr>"
  let ?t = "\<lparr>baseUrl = None, name = Some ?nd, vssId = Some ''.en''\<rparr>"
  have h1: "caption_track.name ?t = Some ?nd" by simp
  have h2: "simpleText ?nd = None" by simp
  have h3: "runs ?nd = Some ?els" by simp
  have h4: "\<forall>el\<in>set ?els. el ''text'' = None" by simp
  have h5: "vssId ?t = Some ''.en''" by simp
  have s: "strip_chars ''.'' ''.en'' = ''en''" by (simp add: strip_chars_def)
  have b: "baseUrl ?t = None" by simp
  from caption_name_unassigned [OF h1 h2 h3 h4]
  have "\<forall>v. vssId ?t = Some v \<longrightarrow>
          Caption_init ?t = Inr \<lparr>url = baseUrl ?t, name = None, code = strip_chars ''.'' v\<rparr> \<and>
          Caption_repr \<lparr>url = baseUrl ?t, name = None, code = strip_chars ''.'' v\<rparr> =
            Inl (AttributeError ''name'')"
    by (rule conjunct2)
  then have "vssId ?t = Some ''.en'' \<longrightarrow>
          Caption_init ?t = Inr \<lparr>url = baseUrl ?t, name = None, code = strip_chars ''.'' ''.en''\<rparr> \<and>
          Caption_repr \<lparr>url = baseUrl ?t, name = None, code = strip_chars ''.'' ''.en''\<rparr> =
            Inl (AttributeError ''name'')"
    by (rule spec)
  from this h5 have "Caption_init ?t = Inr \<lparr>url = baseUrl ?t, name = None, code = strip_chars ''.'' ''.en''\<rparr> \<and>
          Caption_repr \<lparr>url = baseUrl ?t, name = None, code = strip_chars ''.'' ''.en''\<rparr> =
            Inl (AttributeError ''name'')"
    by (rule mp)
  then show ?thesis unfolding s b .
qed

text \<open>
  Claim C10 as stated fails: the descriptor \<open>{'name': {'runs': []}}\<close> meets its conditions,
  and construction does not complete; reading the absent \<open>vssId\<close> raises \<open>KeyError\<close>.
\<close>
theorem caption_name_unassigned_counterexample:
  "Caption_init \<lparr>baseUrl = None, name = Some \<lparr>simpleText = None, runs = Some []\<rparr>, vssId = None\<rparr> =
     Inl (KeyError ''vssId'')"
  by (simp add: Caption_init_def)

section \<open>Properties of the timestamp formatter\<close>

text \<open>
  The formatter accepts a timestamp exactly when \<open>accepted_timestamp\<close> holds: when the
  integer part of the seconds lies in the range of \<open>gmtime\<close> and its year in the range of
  \<open>strftime\<close>.  The first lemmas bound the year of a day.
\<close>

lemma div_bounds:
  fixes x k :: int
  assumes "0 < k"
  shows "k * (x div k) \<le> x" and "x < k * (x div k) + k"
proof -
  have e: "x = k * (x div k) + x mod k" by simp
  from assms have m: "0 \<le> x mod k" "x mod k < k" by simp_all
  from e m(1) show "k * (x div k) \<le> x" by linarith
  from e m(2) show "x < k * (x div k) + k" by linarith
qed








text \<open>
  Every finite number of at most \<open>6 \<cdot> 10\<^sup>1\<^sup>9\<close> milliseconds in absolute value is an accepted
  timestamp: the quotient by 1000 is rounded to a float of at most \<open>6 \<cdot> 10\<^sup>1\<^sup>6 + 8\<close> seconds.
\<close>
lemma bit_length_bounds:
  "0 < n \<Longrightarrow> \<exists>b. bit_length n = int b + 1 \<and> 2 ^ b \<le> n \<and> n < 2 ^ (b + 1)"
proof (induction n rule: bit_length.induct)
  case (1 n)
  from "1.prems" have s: "bit_length n = 1 + bit_length (n div 2)"
    by (subst bit_length.simps) simp
  show ?case
  proof (cases "n div 2 \<le> 0")
    case True
    with "1.prems" have n1: "n = 1" by arith
    from True have "bit_length (n div 2) = 0" by (subst bit_length.simps) simp
    with s n1 have "bit_length n = int 0 + 1 \<and> 2 ^ 0 \<le> n \<and> n < 2 ^ (0 + 1)" by simp
    then show ?thesis ..
  next
    case False
    then have pos: "0 < n div 2" by simp
    from "1.prems" have "\<not> n \<le> 0" by simp
    from "1.IH" [OF this pos] obtain b where
      b: "bit_length (n div 2) = int b + 1" "2 ^ b \<le> n div 2" "n div 2 < 2 ^ (b + 1)"
      by (elim exE conjE)
    have n2: "2 * (n div 2) \<le> n" "n < 2 * (n div 2) + 2" by (rule div_bounds, simp)+
    from s b(1) have "bit_length n = int (b + 1) + 1" by simp
    moreover from b(2) n2(1) have "2 ^ (b + 1) \<le> n" by simp
    moreover from b(3) n2(2) have "n < 2 ^ (b + 1 + 1)" by simp
    ultimately have "bit_length n = int (b + 1) + 1 \<and> 2 ^ (b + 1) \<le> n \<and> n < 2 ^ (b + 1 + 1)"
      by (intro conjI)
    then show ?thesis ..
  qed
qed

lemma round_half_even_bounds:
  assumes "0 \<le> n" "0 < d"
  shows "n div d \<le> round_half_even n d" and "round_half_even n d \<le> n div d + 1"
  by (simp_all add: round_half_even_def Let_def)

lemma floor_log2_le:
  assumes n: "0 < n" and d: "0 < d" and le: "n \<le> 60000000000000000 * d"
  shows "floor_log2 n d \<le> 55"
proof -
  from bit_length_bounds [OF n] obtain bn where
    bn: "bit_length n = int bn + 1" "2 ^ bn \<le> n" "n < 2 ^ (bn + 1)" by (elim exE conjE)
  from bit_length_bounds [OF d] obtain bd where
    bd: "bit_length d = int bd + 1" "2 ^ bd \<le> d" "d < 2 ^ (bd + 1)" by (elim exE conjE)
  have k0: "bit_length n - bit_length d = int bn - int bd" using bn(1) bd(1) by simp
  have B: "(60000000000000000::int) < 2 ^ 56" by simp
  have "2 ^ bn < (2::int) ^ (bd + 57)"
  proof -
    have "2 ^ bn \<le> 60000000000000000 * d" using bn(2) le by linarith
    also have "\<dots> < 2 ^ 56 * d" using d by simp
    also have "\<dots> < 2 ^ 56 * 2 ^ (bd + 1)" using bd(3) by simp
    also have "\<dots> = 2 ^ (bd + 57)" by (simp add: power_add)
    finally show ?thesis .
  qed
  then have "bn < bd + 57" by simp
  then have "int bn - int bd \<le> 56" by simp
  moreover have "int bn - int bd \<le> 55"
    if "0 \<le> int bn - int bd" "d * 2 ^ nat (int bn - int bd) \<le> n"
  proof -
    have "d * 2 ^ nat (int bn - int bd) \<le> 60000000000000000 * d" using that(2) le by linarith
    with d have "2 ^ nat (int bn - int bd) \<le> (60000000000000000::int)" by simp
    with B have "(2::int) ^ nat (int bn - int bd) < 2 ^ 56" by linarith
    then have "nat (int bn - int bd) < 56"
      using power_less_imp_less_exp [of "2::int" "nat (int bn - int bd)" 56] by simp
    then show ?thesis by simp
  qed
  ultimately show ?thesis
    unfolding floor_log2_def Let_def k0 by (auto split: if_splits)
qed

lemma float_of_ratio_bounded:
  assumes n: "0 \<le> n" and d: "0 < d" and le: "n \<le> 60000000000000000 * d"
  shows "\<exists>m e. float_of_ratio s n d = Finite s m e \<and> 0 \<le> m \<and>
           (if 0 \<le> e then m * 2 ^ nat e else m div 2 ^ nat (- e)) \<le> 60000000000000008"
proof (cases "n = 0")
  case True
  then have "float_of_ratio s n d = Finite s 0 0 \<and> (0::int) \<le> 0 \<and>
           (if (0::int) \<le> 0 then 0 * 2 ^ nat 0 else 0 div 2 ^ nat (- 0)) \<le> (60000000000000008::int)"
    by (simp add: float_of_ratio_def)
  then show ?thesis by blast
next
  case False
  with n have npos: "0 < n" by simp
  define e where "e = max (floor_log2 n d - 52) (- 1074)"
  define m where "m = (if 0 \<le> e then round_half_even n (d * 2 ^ nat e)
                       else round_half_even (n * 2 ^ nat (- e)) d)"
  from floor_log2_le [OF npos d le] have e3: "e \<le> 3" by (simp add: e_def)
  have nd: "n div d \<le> 60000000000000000"
  proof -
    from le d have "n div d \<le> (60000000000000000 * d) div d" by (rule zdiv_mono1)
    with d show ?thesis by simp
  qed
  have fr: "float_of_ratio s n d = Finite s m e"
    using False e3 by (simp add: float_of_ratio_def Let_def e_def [symmetric] m_def [symmetric])
  have bounds: "0 \<le> m \<and> (if 0 \<le> e then m * 2 ^ nat e else m div 2 ^ nat (- e)) \<le> 60000000000000008"
  proof (cases "0 \<le> e")
    case True
    define p :: int where "p = 2 ^ nat e"
    have p0: "0 < p" by (simp add: p_def)
    from True e3 have "nat e \<le> 3" by simp
    then have "(2::int) ^ nat e \<le> 2 ^ 3" by (intro power_increasing) simp_all
    then have p8: "p \<le> 8" by (simp add: p_def)
    from True have m: "m = round_half_even n (d * p)" by (simp add: m_def p_def)
    from d p0 have dp: "0 < d * p" by simp
    note r = round_half_even_bounds [OF n dp]
    have q: "n div (d * p) = n div d div p" using p0 by (simp add: zdiv_zmult2_eq)
    have "p * (n div d div p) \<le> n div d" using p0 by (rule div_bounds)
    with nd have qp: "p * (n div (d * p)) \<le> 60000000000000000" unfolding q by linarith
    from n dp have q0: "0 \<le> n div (d * p)" by (simp add: pos_imp_zdiv_nonneg_iff)
    with r(1) have m0: "0 \<le> m" unfolding m by linarith
    from r(2) have "m \<le> n div (d * p) + 1" unfolding m .
    with p0 have "m * p \<le> (n div (d * p) + 1) * p" by simp
    also have "\<dots> = p * (n div (d * p)) + p" by (simp add: algebra_simps)
    also from qp p8 have "\<dots> \<le> 60000000000000008" by linarith
    finally have "m * p \<le> 60000000000000008" .
    with m0 True show ?thesis by (simp add: p_def)
  next
    case False
    define p :: int where "p = 2 ^ nat (- e)"
    have p0: "0 < p" by (simp add: p_def)
    from False have "1 \<le> nat (- e)" by simp
    then have "(2::int) ^ 1 \<le> 2 ^ nat (- e)" by (intro power_increasing) simp_all
    then have p2: "2 \<le> p" by (simp add: p_def)
    from False have m: "m = round_half_even (n * p) d" by (simp add: m_def p_def)
    from n p0 have np: "0 \<le> n * p" by simp
    note r = round_half_even_bounds [OF np d]
    from np d have q0: "0 \<le> n * p div d" by (simp add: pos_imp_zdiv_nonneg_iff)
    with r(1) have m0: "0 \<le> m" unfolding m by linarith
    from le p0 have "n * p \<le> 60000000000000000 * d * p" by simp
    then have "n * p \<le> (60000000000000000 * p) * d" by (simp add: mult.commute mult.left_commute)
    from this d have "n * p div d \<le> (60000000000000000 * p) * d div d" by (rule zdiv_mono1)
    with d have "n * p div d \<le> 60000000000000000 * p" by simp
    with r(2) have "m \<le> 60000000000000000 * p + 1" unfolding m by linarith
    with p2 have lt: "m < 60000000000000001 * p" by linarith
    have "p * (m div p) \<le> m" using p0 by (rule div_bounds)
    with lt have "p * (m div p) < p * 60000000000000001" by (simp add: mult.commute)
    with p0 have "m div p < 60000000000000001" by (simp only: mult_less_cancel_left_pos)
    with m0 False show ?thesis by (simp add: p_def)
  qed
  with fr show ?thesis by blast
qed

lemma accepted_timestamp_finite:
  assumes m: "0 \<le> m"
    and le: "if 0 \<le> e then m * 2 ^ nat e \<le> 60000000000000000000
             else m \<le> 60000000000000000000 * 2 ^ nat (- e)"
  shows "accepted_timestamp (Finite s m e)"
proof -
  have "\<exists>m' e'. truediv (Finite s m e) 1000 = Finite s m' e' \<and> 0 \<le> m' \<and>
           (if 0 \<le> e' then m' * 2 ^ nat e' else m' div 2 ^ nat (- e')) \<le> 60000000000000008"
  proof (cases "0 \<le> e")
    case True
    with le have "m * 2 ^ nat e \<le> 60000000000000000 * 1000" by simp
    moreover from m have "0 \<le> m * 2 ^ nat e" by simp
    moreover have "(0::int) < 1000" by simp
    ultimately have "\<exists>m' e'. float_of_ratio s (m * 2 ^ nat e) 1000 = Finite s m' e' \<and> 0 \<le> m' \<and>
           (if 0 \<le> e' then m' * 2 ^ nat e' else m' div 2 ^ nat (- e')) \<le> 60000000000000008"
      by (intro float_of_ratio_bounded)
    with True show ?thesis by simp
  next
    case False
    with le have "m \<le> 60000000000000000 * (1000 * 2 ^ nat (- e))" by simp
    moreover have "(0::int) < 1000 * 2 ^ nat (- e)" by simp
    ultimately have "\<exists>m' e'. float_of_ratio s m (1000 * 2 ^ nat (- e)) = Finite s m' e' \<and> 0 \<le> m' \<and>
           (if 0 \<le> e' then m' * 2 ^ nat e' else m' div 2 ^ nat (- e')) \<le> 60000000000000008"
      using m by (intro float_of_ratio_bounded)
    with False show ?thesis by simp
  qed
  then obtain m' e' where q: "truediv (Finite s m e) 1000 = Finite s m' e'" and m': "0 \<le> m'"
    and b: "(if 0 \<le> e' then m' * 2 ^ nat e' else m' div 2 ^ nat (- e')) \<le> 60000000000000008"
    by (elim exE conjE)
  show ?thesis
  proof (cases "0 \<le> e'")
    case True
    with b have b': "m' * 2 ^ nat e' \<le> 60000000000000008" by simp
    from m' have "0 \<le> m' * 2 ^ nat e'" by simp
    with b' True show ?thesis
      unfolding accepted_timestamp_def q by (simp add: float_floor_def)
  next
    case False
    with b have b': "m' div 2 ^ nat (- e') \<le> 60000000000000008" by simp
    from m' have "0 \<le> m' div 2 ^ nat (- e')" by (simp add: pos_imp_zdiv_nonneg_iff)
    with b' False show ?thesis
      unfolding accepted_timestamp_def q by (simp add: float_floor_def)
  qed
qed

section \<open>Properties of the conversions\<close>

lemma strip_Nil: "strip [] = []"
  by (simp add: strip_def)







text \<open>
  Claim C1, as amended.  For an input that is not well-formed XML the parser raises, and
  both conversion functions raise that exception: the call of the parser precedes the
  \<open>try\<close> statement, so no handler catches it and no string is returned.
\<close>

theorem malformed_xml_raises:
  assumes "fromstring xml_captions = Inl e"
  shows "xml_caption_to_srt fromstring charref_sub xml_captions = Inl e \<and>
         xml_caption_to_transcript fromstring charref_sub xml_captions = Inl e"
  using assms by (simp add: xml_caption_to_srt_def xml_caption_to_transcript_def)

text \<open>A document whose elements are not closed.\<close>

theorem malformed_xml_raises_witness:
  "sample_fromstring ''<timedtext><body>'' = Inl ParseError \<and>
   xml_caption_to_srt sample_fromstring no_charref ''<timedtext><body>'' = Inl ParseError \<and>
   xml_caption_to_transcript sample_fromstring no_charref ''<timedtext><body>'' = Inl ParseError"
proof -
  have h: "sample_fromstring ''<timedtext><body>'' = Inl ParseError"
    by (simp add: sample_fromstring_def no_body_xml_def track_xml_def no_duration_xml_def
      spaced_xml_def nan_xml_def far_xml_def)
  from malformed_xml_raises [of sample_fromstring "''<timedtext><body>''" ParseError no_charref, OF h] h
  show ?thesis by (simp only: simp_thms)
qed

text \<open>
  Claim C1 as stated fails: on the empty string, which is not well-formed XML, neither
  function returns the empty string; both raise the parser's \<open>ParseError\<close>.
\<close>

theorem malformed_xml_counterexample:
  "xml_caption_to_srt sample_fromstring no_charref [] = Inl ParseError \<and>
   xml_caption_to_transcript sample_fromstring no_charref [] = Inl ParseError"
  by (simp add: xml_caption_to_srt_def xml_caption_to_transcript_def sample_fromstring_def
      no_body_xml_def track_xml_def no_duration_xml_def
      spaced_xml_def nan_xml_def far_xml_def)

text \<open>
  Claim C6.  When the input parses and the root has no \<open>body\<close> child, both conversion
  functions return the empty string; the \<open>AssertionError\<close> raised for the missing element
  is caught inside the function, which prints its traceback.
\<close>

theorem missing_body_yields_empty:
  assumes "fromstring xml_captions = Inr root"
    and "find_elem ''body'' root = None"
  shows "xml_caption_to_srt fromstring charref_sub xml_captions =
           Inr \<lparr>returned = [],
                printed_exc = Some (AssertionError ''XML caption doesn't have a <body> tag'')\<rparr> \<and>
         xml_caption_to_transcript fromstring charref_sub xml_captions =
           Inr \<lparr>returned = [],
                printed_exc = Some (AssertionError ''XML caption doesn't have a <body> tag'')\<rparr>"
  using assms by (simp add: xml_caption_to_srt_def xml_caption_to_transcript_def strip_Nil)

theorem missing_body_yields_empty_witness:
  "sample_fromstring no_body_xml = Inr no_body_tree \<and>
   find_elem ''body'' no_body_tree = None \<and>
   xml_caption_to_srt sample_fromstring no_charref no_body_xml =
     Inr \<lparr>returned = [],
          printed_exc = Some (AssertionError ''XML caption doesn't have a <body> tag'')\<rparr> \<and>
   xml_caption_to_transcript sample_fromstring no_charref no_body_xml =
     Inr \<lparr>returned = [],
          printed_exc = Some (AssertionError ''XML caption doesn't have a <body> tag'')\<rparr>"
proof -
  have h1: "sample_fromstring no_body_xml = Inr no_body_tree"
    by (simp add: sample_fromstring_def no_body_xml_def track_xml_def no_duration_xml_def
      spaced_xml_def nan_xml_def far_xml_def)
  have h2: "find_elem ''body'' no_body_tree = None"
    by (simp add: find_elem_def no_body_tree_def)
  from missing_body_yields_empty [of sample_fromstring no_body_xml no_body_tree no_charref, OF h1 h2]
    h1 h2
  show ?thesis by (simp only: simp_thms)
qed





lemma srt_iteration_cue_block:
  "srt_iteration charref_sub ps i segments =
     (case cue_block charref_sub ps i of Inl e \<Rightarrow> Inl e | Inr b \<Rightarrow> Inr (segments @ [b]))"
  by (simp add: srt_iteration_def cue_block_def append_segment_def Let_def split: sum.splits)


lemma srt_loop_first_failure:
  "i \<le> k \<Longrightarrow> k < length ps \<Longrightarrow> cue_block charref_sub ps k = Inl e \<Longrightarrow>
   (\<And>j. i \<le> j \<Longrightarrow> j < k \<Longrightarrow> \<exists>b. cue_block charref_sub ps j = Inr b) \<Longrightarrow>
   srt_loop charref_sub ps i segments =
     (segments @ map (\<lambda>j. projr (cue_block charref_sub ps j)) [i..<k], Some e)"
proof (induction charref_sub ps i segments rule: srt_loop.induct)
  case (1 charref_sub ps i segments)
  from "1.prems"(1,2) have lt: "i < length ps" by simp
  show ?case
  proof (cases "i = k")
    case True
    with "1.prems"(3) have "srt_iteration charref_sub ps i segments = Inl e"
      by (simp add: srt_iteration_cue_block)
    with lt True show ?thesis by (subst srt_loop.simps) simp
  next
    case False
    with "1.prems"(1) have ik: "i < k" by simp
    with "1.prems"(4) [of i] obtain b where b: "cue_block charref_sub ps i = Inr b" by auto
    then have it: "srt_iteration charref_sub ps i segments = Inr (segments @ [b])"
      by (simp add: srt_iteration_cue_block)
    have "srt_loop charref_sub ps (i + 1) (segments @ [b]) =
            ((segments @ [b]) @ map (\<lambda>j. projr (cue_block charref_sub ps j)) [i + 1..<k], Some e)"
      using lt it ik "1.prems" by (intro "1.IH") auto
    with lt it b ik show ?thesis
      by (subst srt_loop.simps) (simp add: upt_conv_Cons)
  qed
qed

lemma xml_caption_to_srt_body:
  assumes "fromstring xml_captions = Inr root"
    and "find_elem ''body'' root = Some child"
    and "srt_loop charref_sub (findall ''p'' child) 0 [] = (segments, exc)"
  shows "xml_caption_to_srt fromstring charref_sub xml_captions =
           Inr \<lparr>returned = strip (join [CHR 0x0A] segments), printed_exc = exc\<rparr>"
  using assms by (simp add: xml_caption_to_srt_def)





text \<open>
  Claim C3, as amended.  Let the input parse and the root have a \<open>body\<close> child with the \<open>p\<close>
  children \<open>ps\<close>, and let the \<open>t\<close> attribute of some paragraph, or the \<open>d\<close> attribute of the
  last one, be absent or non-numeric (reading it as a float raises).  Then no exception
  leaves the function: there is a first iteration \<open>k\<close> that raises, its exception is caught
  and printed, and the output is the stripped join of the \<open>k\<close> cue blocks appended before
  it.  The output is empty when \<open>k = 0\<close>, and is the partial output otherwise.
\<close>

theorem srt_attribute_error_partial_output:
  assumes "fromstring xml_captions = Inr root"
    and "find_elem ''body'' root = Some child"
    and "ps = findall ''p'' child"
    and "(\<exists>p\<in>set ps. \<exists>e. float_attrib p ''t'' = Inl e) \<or>
         (ps \<noteq> [] \<and> (\<exists>e. float_attrib (last ps) ''d'' = Inl e))"
  shows "\<exists>k e blocks. k < length ps \<and> cue_block charref_sub ps k = Inl e \<and>
           length blocks = k \<and>
           (\<forall>i<k. cue_block charref_sub ps i = Inr (blocks ! i)) \<and>
           xml_caption_to_srt fromstring charref_sub xml_captions =
             Inr \<lparr>returned = strip (join [CHR 0x0A] blocks), printed_exc = Some e\<rparr> \<and>
           (k = 0 \<longrightarrow>
              xml_caption_to_srt fromstring charref_sub xml_captions =
                Inr \<lparr>returned = [], printed_exc = Some e\<rparr>)"
proof -
  let ?P = "\<lambda>k. k < length ps \<and> (\<exists>e. cue_block charref_sub ps k = Inl e)"
  have "\<exists>j. ?P j"
    using assms(4)
  proof
    assume "\<exists>p\<in>set ps. \<exists>e. float_attrib p ''t'' = Inl e"
    then obtain j e where "j < length ps" "float_attrib (ps ! j) ''t'' = Inl e"
      by (auto simp: in_set_conv_nth)
    then have "?P j" by (simp add: cue_block_def)
    then show ?thesis ..
  next
    assume a: "ps \<noteq> [] \<and> (\<exists>e. float_attrib (last ps) ''d'' = Inl e)"
    then obtain e where e: "float_attrib (last ps) ''d'' = Inl e" by blast
    let ?j = "length ps - 1"
    from a have j: "?j < length ps" "ps ! ?j = last ps" "\<not> ?j + 1 < length ps"
      by (auto simp: last_conv_nth)
    with e have "\<exists>e'. cue_block charref_sub ps ?j = Inl e'"
      by (cases "float_attrib (last ps) ''t''") (simp_all add: cue_block_def)
    with j(1) have "?P ?j" by simp
    then show ?thesis ..
  qed
  then have Pk: "?P (LEAST k. ?P k)" by (rule LeastI_ex)
  define k where "k = (LEAST k. ?P k)"
  from Pk obtain e where k: "k < length ps" and e: "cue_block charref_sub ps k = Inl e"
    unfolding k_def by blast
  have before: "\<exists>b. cue_block charref_sub ps j = Inr b" if "j < k" for j
  proof -
    from that have "\<not> ?P j" unfolding k_def by (rule not_less_Least)
    with that k have "\<not> (\<exists>e. cue_block charref_sub ps j = Inl e)" by simp
    then show ?thesis by (cases "cue_block charref_sub ps j") auto
  qed
  define blocks where "blocks = map (\<lambda>j. projr (cue_block charref_sub ps j)) [0..<k]"
  have len: "length blocks = k" by (simp add: blocks_def)
  have nth: "\<forall>i<k. cue_block charref_sub ps i = Inr (blocks ! i)"
  proof (intro allI impI)
    fix i assume i: "i < k"
    from before [OF i] obtain b where "cue_block charref_sub ps i = Inr b" ..
    with i show "cue_block charref_sub ps i = Inr (blocks ! i)" by (simp add: blocks_def)
  qed
  have "srt_loop charref_sub ps 0 [] = ([] @ blocks, Some e)"
    unfolding blocks_def using k e before by (intro srt_loop_first_failure) auto
  then have "srt_loop charref_sub (findall ''p'' child) 0 [] = (blocks, Some e)"
    using assms(3) by simp
  with assms(1,2) have res: "xml_caption_to_srt fromstring charref_sub xml_captions =
             Inr \<lparr>returned = strip (join [CHR 0x0A] blocks), printed_exc = Some e\<rparr>"
    by (rule xml_caption_to_srt_body)
  have zero: "k = 0 \<longrightarrow> xml_caption_to_srt fromstring charref_sub xml_captions =
                Inr \<lparr>returned = [], printed_exc = Some e\<rparr>"
    using res len by (auto simp: strip_Nil)
  from k e len nth res zero show ?thesis
    by (intro exI [where x = k] exI [where x = e] exI [where x = blocks] conjI)
qed

text \<open>
  Claim C3 as stated fails: the last of two paragraphs has no \<open>d\<close> attribute, the error is
  caught, and the output is not empty but the first cue.
\<close>

theorem srt_attribute_error_counterexample:
  "xml_caption_to_srt sample_fromstring no_charref no_duration_xml =
     Inr \<lparr>returned = ''1\<newline>00:00:00,000 --> 00:00:01,000\<newline>A'',
          printed_exc = Some (KeyError ''d'')\<rparr>"
  by code_simp

text \<open>The track whose last paragraph has no \<open>d\<close> attribute: the second iteration raises.\<close>

theorem srt_attribute_error_partial_output_witness:
  "sample_fromstring no_duration_xml = Inr no_duration_tree \<and>
   find_elem ''body'' no_duration_tree = Some no_duration_body \<and>
   length (findall ''p'' no_duration_body) = 2 \<and>
   float_attrib (last (findall ''p'' no_duration_body)) ''d'' = Inl (KeyError ''d'') \<and>
   (\<exists>k e blocks. k < length (findall ''p'' no_duration_body) \<and>
      cue_block no_charref (findall ''p'' no_duration_body) k = Inl e \<and>
      length blocks = k \<and>
      xml_caption_to_srt sample_fromstring no_charref no_duration_xml =
        Inr \<lparr>returned = strip (join [CHR 0x0A] blocks), printed_exc = Some e\<rparr>)"
proof -
  let ?ps = "findall ''p'' no_duration_body"
  have h1: "sample_fromstring no_duration_xml = Inr no_duration_tree"
    by (simp add: sample_fromstring_def no_duration_xml_def track_xml_def)
  have h2: "find_elem ''body'' no_duration_tree = Some no_duration_body"
    by (simp add: find_elem_def no_duration_tree_def no_duration_body_def)
  have n: "length ?ps = 2" by code_simp
  then have ne: "?ps \<noteq> []" by auto
  have d: "float_attrib (last ?ps) ''d'' = Inl (KeyError ''d'')" by code_simp
  from ne d have h4: "(\<exists>p\<in>set ?ps. \<exists>e. float_attrib p ''t'' = Inl e) \<or>
         (?ps \<noteq> [] \<and> (\<exists>e. float_attrib (last ?ps) ''d'' = Inl e))"
    by blast
  from srt_attribute_error_partial_output
         [of sample_fromstring no_duration_xml no_duration_tree no_duration_body ?ps no_charref,
          OF h1 h2 refl h4]
  obtain k e blocks where "k < length ?ps" and "cue_block no_charref ?ps k = Inl e"
    and "length blocks = k"
    and "xml_caption_to_srt sample_fromstring no_charref no_duration_xml =
           Inr \<lparr>returned = strip (join [CHR 0x0A] blocks), printed_exc = Some e\<rparr>"
    by (elim exE conjE)
  then have c: "\<exists>k e blocks. k < length ?ps \<and> cue_block no_charref ?ps k = Inl e \<and>
      length blocks = k \<and>
      xml_caption_to_srt sample_fromstring no_charref no_duration_xml =
        Inr \<lparr>returned = strip (join [CHR 0x0A] blocks), printed_exc = Some e\<rparr>"
    by (intro exI [where x = k] exI [where x = e] exI [where x = blocks] conjI)
  from h1 h2 n d c show ?thesis by (intro conjI)
qed

text \<open>
  Claim C5.  \<open>timestamp_to_srt_time_format(ms)\<close> is \<open>float_to_srt_time_format(ms / 1000)\<close> for
  every \<open>ms\<close>, also where both raise.  On the inputs of the repository's test, the floats
  3890, 1000, 10003, 70003, 123123 and 3903123, it returns the strings listed there, and
  \<open>float_to_srt_time_format(3.89)\<close> returns \<open>00:00:03,890\<close>, where \<open>3.89\<close> is the float that
  Python reads from these digits.
\<close>

theorem timestamp_format_values:
  "(\<forall>ms. timestamp_to_srt_time_format ms = float_to_srt_time_format (truediv ms 1000)) \<and>
   timestamp_to_srt_time_format (Finite False 3890 0) = Inr ''00:00:03,890'' \<and>
   timestamp_to_srt_time_format (Finite False 1000 0) = Inr ''00:00:01,000'' \<and>
   timestamp_to_srt_time_format (Finite False 10003 0) = Inr ''00:00:10,003'' \<and>
   timestamp_to_srt_time_format (Finite False 70003 0) = Inr ''00:01:10,003'' \<and>
   timestamp_to_srt_time_format (Finite False 123123 0) = Inr ''00:02:03,123'' \<and>
   timestamp_to_srt_time_format (Finite False 3903123 0) = Inr ''01:05:03,123'' \<and>
   (\<exists>d. py_float ''3.89'' = Inr d \<and> float_to_srt_time_format d = Inr ''00:00:03,890'')"
proof -
  have a: "\<forall>ms. timestamp_to_srt_time_format ms = float_to_srt_time_format (truediv ms 1000)"
    by (simp add: timestamp_to_srt_time_format_def)
  have v1: "timestamp_to_srt_time_format (Finite False 3890 0) = Inr ''00:00:03,890''"
    by code_simp
  have v2: "timestamp_to_srt_time_format (Finite False 1000 0) = Inr ''00:00:01,000''"
    by code_simp
  have v3: "timestamp_to_srt_time_format (Finite False 10003 0) = Inr ''00:00:10,003''"
    by code_simp
  have v4: "timestamp_to_srt_time_format (Finite False 70003 0) = Inr ''00:01:10,003''"
    by code_simp
  have v5: "timestamp_to_srt_time_format (Finite False 123123 0) = Inr ''00:02:03,123''"
    by code_simp
  have v6: "timestamp_to_srt_time_format (Finite False 3903123 0) = Inr ''01:05:03,123''"
    by code_simp
  have p: "py_float ''3.89'' = Inr (Finite False 8759501275235615 (- 51))"
    by code_simp
  have f: "float_to_srt_time_format (Finite False 8759501275235615 (- 51)) = Inr ''00:00:03,890''"
    by code_simp
  from p f have v7: "\<exists>d. py_float ''3.89'' = Inr d \<and>
      float_to_srt_time_format d = Inr ''00:00:03,890''"
    by (intro exI [where x = "Finite False 8759501275235615 (- 51)"] conjI)
  from a v1 v2 v3 v4 v5 v6 v7 show ?thesis by (intro conjI)
qed

end
